theory Spec2Isabelle
  imports Complex_Main "HOL-Library.Sublist"
begin

section \<open>Strings\<close>

text \<open>
  Source strings are modelled as HOL strings. A HOL character is a byte, so a string
  stands for its UTF-8 encoding: ASCII text is character by character what the source
  has, and a code point beyond ASCII is its byte sequence.
\<close>

text \<open>
  \<^verbatim>\<open>String.prototype.toLowerCase\<close>. On the encoding only the ASCII capitals are
  changed. No other code point lower-cases to an ASCII letter of the four accepted
  extensions, so the comparisons with \<^verbatim>\<open>.md .txt .js .ts\<close> below agree with the
  source on every name.
\<close>

definition toLowerCase_char :: "char \<Rightarrow> char" where
  "toLowerCase_char c =
     (let n = (of_char c :: nat) in if 65 \<le> n \<and> n \<le> 90 then char_of (n + 32) else c)"

definition toLowerCase :: "string \<Rightarrow> string" where
  "toLowerCase s = map toLowerCase_char s"

text \<open>
  \<^verbatim>\<open>String.prototype.split(sep)\<close> for a one-character separator: the pieces between
  the separators, in order. The result is never empty (\<^verbatim>\<open>''.split('.')\<close> is
  \<^verbatim>\<open>['']\<close>).
\<close>

fun split :: "char \<Rightarrow> string \<Rightarrow> string list" where
  "split sep [] = [[]]"
| "split sep (c # cs) =
     (if c = sep then [] # split sep cs
      else (case split sep cs of [] \<Rightarrow> [[c]] | w # ws \<Rightarrow> (c # w) # ws))"

text \<open>\<^verbatim>\<open>Array.prototype.pop\<close>, for its result: the last element, undefined on an empty array.\<close>

definition pop :: "'a list \<Rightarrow> 'a option" where
  "pop xs = (if xs = [] then None else Some (last xs))"

text \<open>
  \<^verbatim>\<open>String.prototype.trim\<close>: white space and line terminators are removed from both
  ends. \<open>whiteSpace\<close> lists the encodings of the ECMAScript WhiteSpace and
  LineTerminator code points: U+0009 to U+000D, U+0020, U+00A0, U+1680, U+2000 to
  U+200A, U+2028, U+2029, U+202F, U+205F, U+3000 and U+FEFF.
\<close>

definition whiteSpace :: "string list" where
  "whiteSpace =
     [[CHR 0x09], [CHR 0x0A], [CHR 0x0B], [CHR 0x0C], [CHR 0x0D], [CHR 0x20],
      [CHR 0xC2, CHR 0xA0], [CHR 0xE1, CHR 0x9A, CHR 0x80],
      [CHR 0xE2, CHR 0x80, CHR 0x80], [CHR 0xE2, CHR 0x80, CHR 0x81],
      [CHR 0xE2, CHR 0x80, CHR 0x82], [CHR 0xE2, CHR 0x80, CHR 0x83],
      [CHR 0xE2, CHR 0x80, CHR 0x84], [CHR 0xE2, CHR 0x80, CHR 0x85],
      [CHR 0xE2, CHR 0x80, CHR 0x86], [CHR 0xE2, CHR 0x80, CHR 0x87],
      [CHR 0xE2, CHR 0x80, CHR 0x88], [CHR 0xE2, CHR 0x80, CHR 0x89],
      [CHR 0xE2, CHR 0x80, CHR 0x8A], [CHR 0xE2, CHR 0x80, CHR 0xA8],
      [CHR 0xE2, CHR 0x80, CHR 0xA9], [CHR 0xE2, CHR 0x80, CHR 0xAF],
      [CHR 0xE2, CHR 0x81, CHR 0x9F], [CHR 0xE3, CHR 0x80, CHR 0x80],
      [CHR 0xEF, CHR 0xBB, CHR 0xBF]]"

text \<open>\<open>strip ws s\<close> removes from the front of \<open>s\<close> every leading occurrence of a piece of \<open>ws\<close>.\<close>

function strip :: "string list \<Rightarrow> string \<Rightarrow> string" where
  "strip ws s =
     (case find (\<lambda>w. w \<noteq> [] \<and> prefix w s) ws of
        None \<Rightarrow> s
      | Some w \<Rightarrow> strip ws (drop (length w) s))"
  by pat_completeness auto
termination
proof (relation "measure (\<lambda>(ws, s). length s)")
  show "wf (measure (\<lambda>(ws, s). length s))" by simp
next
  fix ws :: "string list" and s w :: string
  assume "find (\<lambda>w. w \<noteq> [] \<and> prefix w s) ws = Some w"
  then have "w \<noteq> []" and "prefix w s"
    by (auto simp: find_Some_iff)
  then have "0 < length w" and "length w \<le> length s"
    by (auto simp: prefix_length_le)
  then have "length s - length w < length s"
    by arith
  then have "length (drop (length w) s) < length s"
    by (simp only: length_drop)
  then show "((ws, drop (length w) s), (ws, s)) \<in> measure (\<lambda>(ws, s). length s)"
    by simp
qed

declare strip.simps [simp del]

definition trimStart :: "string \<Rightarrow> string" where
  "trimStart s = strip whiteSpace s"

definition trimEnd :: "string \<Rightarrow> string" where
  "trimEnd s = rev (strip (map rev whiteSpace) (rev s))"

definition trim :: "string \<Rightarrow> string" where
  "trim s = trimEnd (trimStart s)"

section \<open>The input classifier (src/app/page.tsx)\<close>

text \<open>
  Of a browser \<^verbatim>\<open>File\<close> the page reads the name, for the classification, and the
  text, through \<^verbatim>\<open>readFileContent\<close>, for the upload.
\<close>

record File =
  name :: string
  contents :: string

text \<open>
  The extension as every classifying callback of the page computes it:
  \<^verbatim>\<open>const ext = '.' + f.name.split('.').pop()?.toLowerCase()\<close>.
  The concatenation would turn an undefined right operand into the text
  \<^verbatim>\<open>undefined\<close>.
\<close>

definition ext :: "File \<Rightarrow> string" where
  "ext f =
     ''.'' @ (case pop (split (CHR ''.'') (name f)) of
                None \<Rightarrow> ''undefined''
              | Some s \<Rightarrow> toLowerCase s)"

text \<open>\<^verbatim>\<open>hasRequiredFiles\<close>, over the uploaded files (\<^verbatim>\<open>some\<close> is \<open>list_ex\<close>).\<close>

definition hasRequiredFiles :: "File list \<Rightarrow> bool" where
  "hasRequiredFiles uploadedFiles =
     (let hasMarkdown = list_ex (\<lambda>f. ext f \<in> set [''.md'', ''.txt'']) uploadedFiles;
          hasCode = list_ex (\<lambda>f. ext f \<in> set [''.js'', ''.ts'']) uploadedFiles
      in hasMarkdown \<and> hasCode)"

text \<open>
  The two selections of \<^verbatim>\<open>generateContent\<close>: the first markdown/txt file and the
  first js/ts file (\<^verbatim>\<open>find\<close> is \<open>find\<close>, undefined is \<open>None\<close>).
\<close>

definition markdownFile :: "File list \<Rightarrow> File option" where
  "markdownFile uploadedFiles = find (\<lambda>f. ext f \<in> set [''.md'', ''.txt'']) uploadedFiles"

definition codeFile :: "File list \<Rightarrow> File option" where
  "codeFile uploadedFiles = find (\<lambda>f. ext f \<in> set [''.js'', ''.ts'']) uploadedFiles"

section \<open>The prompt composer (the summary route, getPrompt)\<close>

text \<open>
  A template literal that spans several source lines is the concatenation of its lines
  with a line feed between consecutive lines. In each of the four templates the two
  interpolations \<^verbatim>\<open>${markdown}\<close> and \<^verbatim>\<open>${code}\<close> stand alone on their lines, so a
  template is given by its list of lines, with the chat text \<open>m\<close> and the code text
  \<open>c\<close> as two of them.
\<close>

fun joinLines :: "string list \<Rightarrow> string" where
  "joinLines [] = []"
| "joinLines [l] = l"
| "joinLines (l # k # ls) = l @ CHR 0x0A # joinLines (k # ls)"

text \<open>The en dash U+2013 of two template lines, in UTF-8.\<close>

definition en_dash :: string where
  "en_dash = [CHR 0xE2, CHR 0x80, CHR 0x93]"

text \<open>The lines of the template of \<^verbatim>\<open>case 'summary'\<close>.\<close>

definition summary_lines :: "string \<Rightarrow> string \<Rightarrow> string list" where
  \<open>summary_lines m c =
       [''Summarize the following AI-assisted development session in 2''
          @ en_dash
          @ ''3 sentences.'',
        '''',
        ''Focus on:'',
        ''- What Engineer 1 was trying to build'',
        ''- Any major shifts in approach'',
        ''- Tools or APIs used'',
        ''- Current state of the work (e.g. incomplete, functional, missing ''
          @ ''validation)'',
        '''',
        ''Avoid code. Be concise and clear.'',
        '''',
        ''---'',
        '''',
        ''## Chat Transcript:'',
        m,
        '''',
        ''## Final Code:'',
        c]\<close>

text \<open>The lines of the template of \<^verbatim>\<open>case 'cursor'\<close>.\<close>

definition cursor_lines :: "string \<Rightarrow> string \<Rightarrow> string list" where
  \<open>cursor_lines m c =
       [''You are an AI memory generator for coding assistants like Cursor. Your ''
          @ ''task is to create a structured context document that captures the full ''
          @ ''development process from a previous engineer, to be used by a second ''
          @ ''engineer's AI assistant to continue seamlessly.'',
        '''',
        ''You will be given:'',
        ''- The full code at the time of handoff'',
        ''- Logs of chat conversations between Engineer 1 and their coding ''
          @ ''assistants (Cursor, Claude, etc.), including prompts, code suggestions, ''
          @ ''errors, questions, and revisions'',
        '''',
        ''Output a detailed technical summary with the following structure:'',
        '''',
        ''1. Feature Name'',
        ''2. Development Timeline (timestamped major events)'',
        ''3. Original Goals (what the engineer was trying to achieve)'',
        ''4. Coding History:'',
        ''   - Key code changes with associated prompts'',
        ''   - Important implementation decisions'',
        ''   - Deleted or replaced approaches'',
        ''   - Bugs and error messages encountered'',
        ''5. Resolved vs Unresolved Issues'',
        ''6. Remaining TODOs'',
        ''7. Dependencies and External Services'',
        ''8. Engineer 1's coding preferences or style notes (e.g. "prefers ''
          @ ''minimal error handling", "used async/await throughout")'',
        '''',
        ''This document will serve as **working context for the next engineer's ''
          @ ''AI assistant**, so avoid unnecessary commentary. Prioritize clarity, ''
          @ ''completeness, and deep technical accuracy. Include relevant code ''
          @ ''snippets and time markers to help AI interpret the codebase like ''
          @ ''Engineer 1 did.'',
        '''',
        ''---'',
        '''',
        ''## Chat Transcript:'',
        m,
        '''',
        ''## Final Code:'',
        c,
        '''',
        ''---'',
        '''',
        ''Please return only the structured context document that can be pasted ''
          @ ''into Cursor/Claude to give the AI assistant full context of Engineer ''
          @ ''1's work.'']\<close>

text \<open>The lines of the template of \<^verbatim>\<open>case 'readme'\<close>.\<close>

definition readme_lines :: "string \<Rightarrow> string \<Rightarrow> string list" where
  \<open>readme_lines m c =
       [''You are a senior AI developer assistant. Your task is to generate a ''
          @ ''clear, human-readable README for a second engineer inheriting a coding ''
          @ ''project mid-sprint.'',
        '''',
        ''You will be given:'',
        ''- Full source code at the time of handoff'',
        ''- A chronological log of conversations between Engineer 1 and their AI ''
          @ ''assistants (Cursor, Claude, etc), including all prompts, responses, ''
          @ ''code snippets, questions, bugs, and notes.'',
        '''',
        ''Your job is to extract and organize the full **thought process** of ''
          @ ''Engineer 1 into a concise but thorough README. It must help Engineer 2 ''
          @ ''quickly understand:'',
        '''',
        ''1. What was the goal of the work Engineer 1 was doing?'',
        ''2. What did the code look like when they started?'',
        ''3. How did it change over time? (Include timestamps with major events)'',
        ''4. What bugs or blockers did they face? How were these resolved?'',
        ''5. What tradeoffs were made or shortcuts taken?'',
        ''6. Are there any known gaps, risks, or unfinished elements?'',
        ''7. Any critical TODOs or handoff notes?'',
        ''8. What patterns or intentions does Engineer 2 need to know to continue ''
          @ ''work?'',
        '''',
        ''Format the README with clearly marked sections and timestamps (e.g. ''
          @ ''Monday 11:04am ''
          @ en_dash
          @ '' Fixed image upload bug by bypassing validation check). Use bullet ''
          @ ''points and code snippets when helpful. Prioritize clarity, context, and ''
          @ ''continuity. Assume Engineer 2 has access to the code but not the full ''
          @ ''chat history.'',
        '''',
        ''---'',
        '''',
        ''## Chat Transcript:'',
        m,
        '''',
        ''## Final Code:'',
        c]\<close>

text \<open>The lines of the template of \<^verbatim>\<open>default\<close>, the combined prompt.\<close>

definition combined_lines :: "string \<Rightarrow> string \<Rightarrow> string list" where
  \<open>combined_lines m c =
       [''You're an AI summarizer for engineering handoffs.'',
        '''',
        ''A developer worked on a feature using AI tools like Cursor and Claude. ''
          @ ''Below is their chat log and final code.'',
        '''',
        ''Generate:'',
        '''',
        ''### README.md'',
        ''- What they built'',
        ''- Key decisions'',
        ''- Tradeoffs'',
        ''- Tools used'',
        ''- TODOs'',
        ''- Red flags'',
        '''',
        ''### Cursor Log'',
        ''Reconstruct the session as:'',
        ''### Engineer:'',
        ''...'',
        ''### AI:'',
        ''...'',
        '''',
        ''---'',
        '''',
        ''## Chat Export:'',
        m,
        '''',
        ''## Final Code:'',
        c,
        '''',
        ''---'',
        '''',
        ''Please provide your response in the following format:'',
        '''',
        ''## README.md'',
        ''[Your README content here]'',
        '''',
        ''## Cursor Log'',
        ''[Your Cursor log reconstruction here]'']\<close>

text \<open>
  \<^verbatim>\<open>getPrompt(type, markdown, code)\<close>, with the parameters named \<open>t\<close>, \<open>m\<close> and
  \<open>c\<close>: the \<^verbatim>\<open>switch\<close> on the type, by strict equality, with its default; the
  template returned is the joined lines.
\<close>

definition getPrompt :: "string \<Rightarrow> string \<Rightarrow> string \<Rightarrow> string" where
  "getPrompt t m c =
     joinLines
       (if t = ''summary'' then summary_lines m c
        else if t = ''cursor'' then cursor_lines m c
        else if t = ''readme'' then readme_lines m c
        else combined_lines m c)"

section \<open>The generation orchestrator (the summary route, POST)\<close>

subsection \<open>Values\<close>

text \<open>The errors a step of the route can throw.\<close>

datatype exn = SyntaxError | TypeError | RangeError

text \<open>
  A value that \<^verbatim>\<open>JSON.parse\<close> returns. \<open>JObj\<close> lists the properties of the parsed
  object, each key once.
\<close>

datatype json =
    JNull
  | JBool bool
  | JNum rat
  | JStr string
  | JArr "json list"
  | JObj "(string \<times> json) list"

text \<open>
  \<^verbatim>\<open>v.key\<close> on a value that is neither null nor undefined, for the keys the route
  reads (\<^verbatim>\<open>choices\<close>, \<^verbatim>\<open>message\<close>, \<^verbatim>\<open>content\<close>): none of them is a property of
  an array, a string, a number or a boolean. Undefined is \<open>None\<close>.
\<close>

fun field :: "string \<Rightarrow> json \<Rightarrow> json option" where
  "field key (JObj ps) = map_of ps key"
| "field key v = None"

text \<open>\<^verbatim>\<open>v[0]\<close> on a value that is neither null nor undefined.\<close>

fun index0 :: "json \<Rightarrow> json option" where
  "index0 (JArr xs) = (case xs of [] \<Rightarrow> None | x # rest \<Rightarrow> Some x)"
| "index0 (JStr s) = (if s = [] then None else Some (JStr (take 1 s)))"
| "index0 (JObj ps) = map_of ps ''0''"
| "index0 v = None"

text \<open>Optional chaining \<^verbatim>\<open>v?.p\<close>: undefined when \<open>v\<close> is null or undefined.\<close>

definition optional :: "(json \<Rightarrow> json option) \<Rightarrow> json option \<Rightarrow> json option" where
  "optional get v = (case v of None \<Rightarrow> None | Some JNull \<Rightarrow> None | Some x \<Rightarrow> get x)"

text \<open>Truthiness of a parsed value: null, false, zero and the empty string are falsy.\<close>

fun truthy :: "json \<Rightarrow> bool" where
  "truthy JNull = False"
| "truthy (JBool b) = b"
| "truthy (JNum n) = (n \<noteq> 0)"
| "truthy (JStr s) = (s \<noteq> [])"
| "truthy (JArr xs) = True"
| "truthy (JObj ps) = True"

text \<open>
  The chain \<^verbatim>\<open>data.choices?.[0]?.message?.content\<close> on a \<open>data\<close> that is not null.
\<close>

definition first_completion :: "json \<Rightarrow> json option" where
  "first_completion data =
     optional (field ''content'')
       (optional (field ''message'') (optional index0 (field ''choices'' data)))"

text \<open>
  \<^verbatim>\<open>const content = data.choices?.[0]?.message?.content || ''\<close>. The first access is
  not optional: on null it throws a TypeError.
\<close>

definition content_of :: "json \<Rightarrow> exn + json" where
  "content_of data =
     (case data of
        JNull \<Rightarrow> Inl TypeError
      | _ \<Rightarrow>
          Inr (case first_completion data of
                 None \<Rightarrow> JStr []
               | Some v \<Rightarrow> if truthy v then v else JStr []))"

subsection \<open>The request, the upstream exchange and the response\<close>

text \<open>
  \<^verbatim>\<open>interface SummaryRequest\<close>: the fields are strings, as declared; a field that the
  body lacks is \<open>None\<close>.
\<close>

record SummaryRequest =
  markdown :: "string option"
  code :: "string option"
  type :: "string option"

text \<open>\<^verbatim>\<open>interface SummaryResponse\<close>; a field holds the value the upstream body gave.\<close>

record SummaryResponse =
  readme :: "json option"
  cursorLog :: "json option"
  summary :: "json option"

text \<open>
  The argument of \<^verbatim>\<open>JSON.stringify\<close> in the outbound call, and the call itself. The
  numeric literals \<^verbatim>\<open>0.7\<close> and \<^verbatim>\<open>1\<close> are the decimal numbers that the
  serialisation writes.
\<close>

record Message =
  role :: string
  content :: string

record Completion =
  model :: string
  messages :: "Message list"
  temperature :: rat
  top_p :: rat
  max_tokens :: nat
  stream :: bool

record Fetch =
  url :: string
  http_method :: string
  headers :: "(string \<times> string) list"
  body :: Completion

text \<open>
  What the route reads of the upstream \<^verbatim>\<open>Response\<close>: the status, the body as text and
  the result of \<^verbatim>\<open>response.json()\<close>, which throws on a body that is not JSON.
\<close>

record Response =
  status :: nat
  bodyText :: string
  json :: "exn + json"

definition ok :: "Response \<Rightarrow> bool" where
  "ok response = (200 \<le> status response \<and> status response \<le> 299)"

text \<open>
  The surroundings of one call: \<^verbatim>\<open>process.env.NVIDIA_API_KEY\<close> and the behaviour of
  \<^verbatim>\<open>fetch\<close>, which rejects when the transport fails.
\<close>

record Env =
  NVIDIA_API_KEY :: "string option"
  fetch :: "Fetch \<Rightarrow> exn + Response"

text \<open>
  The response of the route: the payload given to \<^verbatim>\<open>NextResponse.json\<close>, which is
  \<^verbatim>\<open>{error: message}\<close> or a \<^verbatim>\<open>SummaryResponse\<close>, and the status.
\<close>

datatype Payload = ErrorBody string | ResultBody SummaryResponse

record NextResponse =
  payload :: Payload
  init_status :: nat

text \<open>
  \<^verbatim>\<open>NextResponse.json(payload, {status})\<close> builds a standard \<^verbatim>\<open>Response\<close> with a body,
  and the initialisation of such a response checks the status: outside 200 to 599 it
  throws a RangeError, and on a status that allows no body (204, 205, 304) a TypeError.
  With the constant statuses of the route (400, 500, and 200 when none is given) it
  cannot throw, and \<open>POST\<close> writes the response directly; the check matters where the
  route passes the upstream status on.
\<close>

definition NextResponse_json :: "Payload \<Rightarrow> nat \<Rightarrow> exn + NextResponse" where
  "NextResponse_json p st =
     (if st < 200 \<or> 599 < st then Inl RangeError
      else if st \<in> set [204, 205, 304] then Inl TypeError
      else Inr \<lparr>payload = p, init_status = st\<rparr>)"

text \<open>An argument of \<^verbatim>\<open>console.error\<close>.\<close>

datatype Logged = LogStr string | LogNum nat | LogExn exn

text \<open>
  One run of the route: the response it returns, the outbound call it made, if any, and
  the lines it wrote with \<^verbatim>\<open>console.error\<close>.
\<close>

record Outcome =
  response :: NextResponse
  fetched :: "Fetch option"
  console :: "Logged list list"

definition NVIDIA_API_URL :: string where
  "NVIDIA_API_URL = ''https://integrate.api.nvidia.com/v1''"

definition MODEL_NAME :: string where
  "MODEL_NAME = ''nvidia/llama-3.1-nemotron-nano-8b-v1''"

subsection \<open>POST\<close>

text \<open>The \<^verbatim>\<open>catch\<close> block, applied to the error thrown and to what had been called and logged.\<close>

definition catch :: "exn \<Rightarrow> Fetch option \<Rightarrow> Logged list list \<Rightarrow> Outcome" where
  "catch error called logged =
     \<lparr>response =
        (if error = SyntaxError then
           \<lparr>payload = ErrorBody ''Invalid JSON in request body'', init_status = 400\<rparr>
         else
           \<lparr>payload =
              ErrorBody ''Internal server error occurred while processing your request'',
            init_status = 500\<rparr>),
      fetched = called,
      console = logged @ [[LogStr ''API Error:'', LogExn error]]\<rparr>"

text \<open>
  The outbound call for a prompt: \<^verbatim>\<open>fetch(`${NVIDIA_API_URL}/chat/completions`, ...)\<close>.
\<close>

definition outbound :: "string \<Rightarrow> string \<Rightarrow> string \<Rightarrow> Fetch" where
  "outbound apiKey t prompt =
     \<lparr>url = NVIDIA_API_URL @ ''/chat/completions'',
      http_method = ''POST'',
      headers =
        [(''Authorization'', ''Bearer '' @ apiKey), (''Content-Type'', ''application/json'')],
      body =
        \<lparr>model = MODEL_NAME,
         messages = [\<lparr>role = ''user'', content = prompt\<rparr>],
         temperature = 7 / 10,
         top_p = 1,
         max_tokens = (if t = ''summary'' then 512 else 2048),
         stream = False\<rparr>\<rparr>"

text \<open>
  The message of the branch \<^verbatim>\<open>if (!response.ok)\<close>, chosen by the upstream status.
\<close>

definition errorMessage :: "nat \<Rightarrow> string" where
  "errorMessage st =
     (if st = 401 then ''Invalid API key''
      else if st = 429 then ''Rate limit exceeded. Please try again later.''
      else if 500 \<le> st then ''NVIDIA API service unavailable''
      else ''Failed to generate content'')"

text \<open>\<^verbatim>\<open>// Handle response based on type\<close>: the result for a type and a content.\<close>

definition result_for :: "string \<Rightarrow> json \<Rightarrow> SummaryResponse" where
  "result_for t v =
     (if t = ''summary'' then \<lparr>readme = None, cursorLog = None, summary = Some v\<rparr>
      else if t = ''cursor'' then \<lparr>readme = None, cursorLog = Some v, summary = None\<rparr>
      else if t = ''readme'' then \<lparr>readme = Some v, cursorLog = None, summary = None\<rparr>
      else \<lparr>readme = None, cursorLog = None, summary = None\<rparr>)"

text \<open>
  The destructuring \<^verbatim>\<open>const { markdown, code, type = 'summary' } = await request.json()\<close>:
  the default applies to an undefined type; an undefined text is falsy like the empty
  one, and is read as it.
\<close>

definition requested_type :: "SummaryRequest \<Rightarrow> string" where
  "requested_type r = (case type r of None \<Rightarrow> ''summary'' | Some t \<Rightarrow> t)"

definition markdown_text :: "SummaryRequest \<Rightarrow> string" where
  "markdown_text r = (case markdown r of None \<Rightarrow> [] | Some s \<Rightarrow> s)"

definition code_text :: "SummaryRequest \<Rightarrow> string" where
  "code_text r = (case code r of None \<Rightarrow> [] | Some s \<Rightarrow> s)"

text \<open>\<^verbatim>\<open>const apiKey = process.env.NVIDIA_API_KEY\<close>, an unset variable read as the empty text.\<close>

definition apiKey :: "Env \<Rightarrow> string" where
  "apiKey env = (case NVIDIA_API_KEY env of None \<Rightarrow> [] | Some k \<Rightarrow> k)"

text \<open>
  \<^verbatim>\<open>POST(request)\<close>. The argument \<open>request\<close> is the result of
  \<^verbatim>\<open>request.json()\<close>, which throws a SyntaxError on a body that is not JSON. Every
  step follows the source in its order; an error thrown inside the \<^verbatim>\<open>try\<close> goes to
  \<open>catch\<close>.
\<close>

definition POST :: "Env \<Rightarrow> exn + SummaryRequest \<Rightarrow> Outcome" where
  "POST env request =
     (case request of
        Inl error \<Rightarrow> catch error None []
      | Inr r \<Rightarrow>
          if markdown_text r = [] \<or> code_text r = [] then
            \<lparr>response =
               \<lparr>payload = ErrorBody ''Both markdown and code fields are required'',
                init_status = 400\<rparr>,
             fetched = None, console = []\<rparr>
          else if apiKey env = [] then
            \<lparr>response =
               \<lparr>payload = ErrorBody ''Server configuration error: API key not found'',
                init_status = 500\<rparr>,
             fetched = None,
             console = [[LogStr ''NVIDIA_API_KEY is not set in environment variables'']]\<rparr>
          else
            (let prompt = getPrompt (requested_type r) (markdown_text r) (code_text r);
                 call = outbound (apiKey env) (requested_type r) prompt
             in
               case fetch env call of
                 Inl error \<Rightarrow> catch error (Some call) []
               | Inr upstream \<Rightarrow>
                   if \<not> ok upstream then
                     (let logged =
                            [[LogStr ''NVIDIA API Error:'', LogNum (status upstream),
                              LogStr (bodyText upstream)]]
                      in
                        case NextResponse_json (ErrorBody (errorMessage (status upstream)))
                               (status upstream) of
                          Inl error \<Rightarrow> catch error (Some call) logged
                        | Inr answer \<Rightarrow>
                            \<lparr>response = answer, fetched = Some call, console = logged\<rparr>)
                   else
                     (case json upstream of
                        Inl error \<Rightarrow> catch error (Some call) []
                      | Inr data \<Rightarrow>
                          (case content_of data of
                             Inl error \<Rightarrow> catch error (Some call) []
                           | Inr v \<Rightarrow>
                               if \<not> truthy v then
                                 \<lparr>response =
                                    \<lparr>payload = ErrorBody ''No content generated from AI'',
                                     init_status = 500\<rparr>,
                                  fetched = Some call, console = []\<rparr>
                               else
                                 \<lparr>response =
                                    \<lparr>payload = ResultBody (result_for (requested_type r) v),
                                     init_status = 200\<rparr>,
                                  fetched = Some call, console = []\<rparr>))))"

subsection \<open>The page's call of the route (src/app/page.tsx)\<close>

text \<open>
  \<^verbatim>\<open>generateContent(type)\<close> up to its call of the route: the error it shows instead, or
  the body it posts, with both texts trimmed.
\<close>

definition generateContent :: "File list \<Rightarrow> string \<Rightarrow> string + SummaryRequest" where
  "generateContent uploadedFiles t =
     (if \<not> hasRequiredFiles uploadedFiles then
        Inl ''Please upload at least one chat file (.md or .txt) and one code file (.js or .ts).''
      else
        (case (markdownFile uploadedFiles, codeFile uploadedFiles) of
           (Some chat, Some source) \<Rightarrow>
             Inr \<lparr>markdown = Some (trim (contents chat)),
                  code = Some (trim (contents source)),
                  type = Some t\<rparr>
         | _ \<Rightarrow> Inl ''Required file types not found''))"

section \<open>Notions for the statements\<close>

text \<open>The outbound call that the route makes for a request, once it makes one.\<close>

definition call_for :: "Env \<Rightarrow> SummaryRequest \<Rightarrow> Fetch" where
  "call_for env r =
     outbound (apiKey env) (requested_type r)
       (getPrompt (requested_type r) (markdown_text r) (code_text r))"

text \<open>
  Values for the examples: an environment with a key whose upstream answers every call
  with a given status and parsed body; the body of a chat completion with one choice; a
  request with both texts; an environment without a key; an upload whose chat file is
  blank.
\<close>

definition mock :: "nat \<Rightarrow> exn + json \<Rightarrow> Env" where
  "mock st parsed =
     \<lparr>NVIDIA_API_KEY = Some ''key'',
      fetch = (\<lambda>call. Inr \<lparr>status = st, bodyText = [], json = parsed\<rparr>)\<rparr>"

definition completion :: "string \<Rightarrow> json" where
  "completion s = JObj [(''choices'', JArr [JObj [(''message'', JObj [(''content'', JStr s)])]])]"

definition sample :: "string option \<Rightarrow> SummaryRequest" where
  "sample t = \<lparr>markdown = Some ''chat'', code = Some ''code'', type = t\<rparr>"

definition no_key :: Env where
  "no_key = \<lparr>NVIDIA_API_KEY = None, fetch = (\<lambda>call. Inl TypeError)\<rparr>"


text \<open>
  The classification in the words of the spec: the extension of a file is the lower-cased
  text after the last dot of its name; Chat is \<^verbatim>\<open>.md\<close> and \<^verbatim>\<open>.txt\<close>, Code is
  \<^verbatim>\<open>.js\<close> and \<^verbatim>\<open>.ts\<close>; a file with no extension, or with another one, is
  Unrecognized.
\<close>

definition last_segment :: "string \<Rightarrow> string" where
  "last_segment n = rev (takeWhile (\<lambda>x. x \<noteq> CHR ''.'') (rev n))"

datatype FileCategory = Chat | Code | Unrecognized

definition spec_category :: "File \<Rightarrow> FileCategory" where
  "spec_category f =
     (if CHR ''.'' \<notin> set (name f) then Unrecognized
      else if toLowerCase (last_segment (name f)) \<in> set [''md'', ''txt''] then Chat
      else if toLowerCase (last_segment (name f)) \<in> set [''js'', ''ts''] then Code
      else Unrecognized)"

text \<open>
  The classification that the page computes, in the same words: it differs on a name
  without a dot, which is then taken whole for its extension.
\<close>

definition category :: "File \<Rightarrow> FileCategory" where
  "category f =
     (if toLowerCase (last_segment (name f)) \<in> set [''md'', ''txt''] then Chat
      else if toLowerCase (last_segment (name f)) \<in> set [''js'', ''ts''] then Code
      else Unrecognized)"

text \<open>Uploaded files with the given names and texts, in order.\<close>

definition upload :: "(string \<times> string) list \<Rightarrow> File list" where
  "upload files = map (\<lambda>(n, t). \<lparr>name = n, contents = t\<rparr>) files"

text \<open>
  \<open>after_first s p\<close> is the text of \<open>p\<close> after the leftmost occurrence of \<open>s\<close>, if
  \<open>s\<close> occurs in \<open>p\<close>.
\<close>

fun after_first :: "string \<Rightarrow> string \<Rightarrow> string option" where
  "after_first s [] = (if s = [] then Some [] else None)"
| "after_first s (x # xs) =
     (if prefix s (x # xs) then Some (drop (length s) (x # xs)) else after_first s xs)"

section \<open>The paths of POST\<close>

lemma POST_thrown: "POST env (Inl e) = catch e None []"
  by (simp add: POST_def)



lemma POST_fetch_thrown:
  "markdown_text r \<noteq> [] \<Longrightarrow> code_text r \<noteq> [] \<Longrightarrow> apiKey env \<noteq> [] \<Longrightarrow>
   fetch env (call_for env r) = Inl e \<Longrightarrow>
   POST env (Inr r) = catch e (Some (call_for env r)) []"
  by (simp add: POST_def call_for_def Let_def)

lemma POST_not_ok:
  "markdown_text r \<noteq> [] \<Longrightarrow> code_text r \<noteq> [] \<Longrightarrow> apiKey env \<noteq> [] \<Longrightarrow>
   fetch env (call_for env r) = Inr upstream \<Longrightarrow> \<not> ok upstream \<Longrightarrow>
   POST env (Inr r) =
     (case NextResponse_json (ErrorBody (errorMessage (status upstream))) (status upstream) of
        Inl e \<Rightarrow>
          catch e (Some (call_for env r))
            [[LogStr ''NVIDIA API Error:'', LogNum (status upstream), LogStr (bodyText upstream)]]
      | Inr answer \<Rightarrow>
          \<lparr>response = answer,
           fetched = Some (call_for env r),
           console =
             [[LogStr ''NVIDIA API Error:'', LogNum (status upstream),
               LogStr (bodyText upstream)]]\<rparr>)"
  by (simp add: POST_def call_for_def Let_def split: sum.splits)

lemma POST_json_thrown:
  "markdown_text r \<noteq> [] \<Longrightarrow> code_text r \<noteq> [] \<Longrightarrow> apiKey env \<noteq> [] \<Longrightarrow>
   fetch env (call_for env r) = Inr upstream \<Longrightarrow> ok upstream \<Longrightarrow>
   json upstream = Inl e \<Longrightarrow>
   POST env (Inr r) = catch e (Some (call_for env r)) []"
  by (simp add: POST_def call_for_def Let_def)

lemma POST_content:
  "markdown_text r \<noteq> [] \<Longrightarrow> code_text r \<noteq> [] \<Longrightarrow> apiKey env \<noteq> [] \<Longrightarrow>
   fetch env (call_for env r) = Inr upstream \<Longrightarrow> ok upstream \<Longrightarrow>
   json upstream = Inr data \<Longrightarrow>
   POST env (Inr r) =
     (case content_of data of
        Inl e \<Rightarrow> catch e (Some (call_for env r)) []
      | Inr v \<Rightarrow>
          if truthy v then
            \<lparr>response =
               \<lparr>payload = ResultBody (result_for (requested_type r) v), init_status = 200\<rparr>,
             fetched = Some (call_for env r), console = []\<rparr>
          else
            \<lparr>response =
               \<lparr>payload = ErrorBody ''No content generated from AI'', init_status = 500\<rparr>,
             fetched = Some (call_for env r), console = []\<rparr>)"
  by (simp add: POST_def call_for_def Let_def split: sum.splits)

lemma fetched_POST:
  "fetched (POST env request) =
     (case request of
        Inl e \<Rightarrow> None
      | Inr r \<Rightarrow>
          if markdown_text r = [] \<or> code_text r = [] \<or> apiKey env = [] then None
          else Some (call_for env r))"
  by (simp add: POST_def call_for_def Let_def catch_def split: sum.splits)

section \<open>The first completion of an upstream body\<close>

lemma first_completion_completion: "first_completion (completion s) = Some (JStr s)"
  by (simp add: first_completion_def completion_def optional_def)

lemma content_of_text:
  "first_completion data = Some (JStr s) \<Longrightarrow> s \<noteq> [] \<Longrightarrow> content_of data = Inr (JStr s)"
  by (cases data) (simp_all add: content_of_def first_completion_def optional_def)


lemma content_of_falsy:
  "data \<noteq> JNull \<Longrightarrow> (case first_completion data of None \<Rightarrow> True | Some v \<Rightarrow> \<not> truthy v) \<Longrightarrow>
   content_of data = Inr (JStr [])"
  by (cases data) (simp_all add: content_of_def split: option.splits)

section \<open>Evaluating the examples\<close>

lemmas sample_simps = sample_def markdown_text_def code_text_def requested_type_def apiKey_def mock_def ok_def

section \<open>A successful generation fills the field of its mode\<close>

text \<open>
  C1: when the upstream call succeeds (a 2xx status, a body whose first completion holds a
  non-empty text \<open>s\<close>), the response has status 200 and its result holds \<open>s\<close> in
  exactly the field of the request's type: \<^verbatim>\<open>summary\<close> for summary,
  \<^verbatim>\<open>cursorLog\<close> for cursor, \<^verbatim>\<open>readme\<close> for readme; the other two fields are
  unset.
\<close>

theorem C1_one_field_per_mode:
  assumes "markdown_text r \<noteq> []" and "code_text r \<noteq> []" and "apiKey env \<noteq> []"
    and "fetch env (call_for env r) = Inr upstream" and "ok upstream"
    and "json upstream = Inr data" and "first_completion data = Some (JStr s)" and "s \<noteq> []"
  shows "(requested_type r = ''summary'' \<longrightarrow>
            response (POST env (Inr r)) =
              \<lparr>payload = ResultBody \<lparr>readme = None, cursorLog = None, summary = Some (JStr s)\<rparr>,
               init_status = 200\<rparr>) \<and>
         (requested_type r = ''cursor'' \<longrightarrow>
            response (POST env (Inr r)) =
              \<lparr>payload = ResultBody \<lparr>readme = None, cursorLog = Some (JStr s), summary = None\<rparr>,
               init_status = 200\<rparr>) \<and>
         (requested_type r = ''readme'' \<longrightarrow>
            response (POST env (Inr r)) =
              \<lparr>payload = ResultBody \<lparr>readme = Some (JStr s), cursorLog = None, summary = None\<rparr>,
               init_status = 200\<rparr>)"
proof -
  have "content_of data = Inr (JStr s)"
    using assms(7,8) by (rule content_of_text)
  then have "response (POST env (Inr r)) =
      \<lparr>payload = ResultBody (result_for (requested_type r) (JStr s)), init_status = 200\<rparr>"
    using assms by (simp add: POST_content)
  then show ?thesis
    by (simp add: result_for_def)
qed

text \<open>
  The instance of the spec: a summary request on an upstream mocked to return
  \<^verbatim>\<open>Built X using Y.\<close> yields that text as the summary and nothing else; and the
  same upstream for the two other types.
\<close>

theorem C1_one_field_per_mode_witness:
  "markdown_text (sample (Some ''summary'')) \<noteq> [] \<and>
   code_text (sample (Some ''summary'')) \<noteq> [] \<and>
   apiKey (mock 200 (Inr (completion ''Built X using Y.''))) \<noteq> [] \<and>
   fetch (mock 200 (Inr (completion ''Built X using Y.'')))
     (call_for (mock 200 (Inr (completion ''Built X using Y.''))) (sample (Some ''summary''))) =
     Inr \<lparr>status = 200, bodyText = [], json = Inr (completion ''Built X using Y.'')\<rparr> \<and>
   ok \<lparr>status = 200, bodyText = [], json = Inr (completion ''Built X using Y.'')\<rparr> \<and>
   first_completion (completion ''Built X using Y.'') = Some (JStr ''Built X using Y.'') \<and>
   requested_type (sample (Some ''summary'')) = ''summary'' \<and>
   response (POST (mock 200 (Inr (completion ''Built X using Y.''))) (Inr (sample (Some ''summary'')))) =
     \<lparr>payload =
        ResultBody \<lparr>readme = None, cursorLog = None, summary = Some (JStr ''Built X using Y.'')\<rparr>,
      init_status = 200\<rparr> \<and>
   requested_type (sample (Some ''cursor'')) = ''cursor'' \<and>
   response (POST (mock 200 (Inr (completion ''Built X using Y.''))) (Inr (sample (Some ''cursor'')))) =
     \<lparr>payload =
        ResultBody \<lparr>readme = None, cursorLog = Some (JStr ''Built X using Y.''), summary = None\<rparr>,
      init_status = 200\<rparr> \<and>
   requested_type (sample (Some ''readme'')) = ''readme'' \<and>
   response (POST (mock 200 (Inr (completion ''Built X using Y.''))) (Inr (sample (Some ''readme'')))) =
     \<lparr>payload =
        ResultBody \<lparr>readme = Some (JStr ''Built X using Y.''), cursorLog = None, summary = None\<rparr>,
      init_status = 200\<rparr>"
proof -
  let ?env = "mock 200 (Inr (completion ''Built X using Y.''))"
  let ?up = "\<lparr>status = 200, bodyText = [], json = Inr (completion ''Built X using Y.'')\<rparr>"
  have a: "markdown_text (sample t) \<noteq> []" and b: "code_text (sample t) \<noteq> []"
    and d: "fetch ?env (call_for ?env (sample t)) = Inr ?up" for t
    by (simp_all add: sample_simps)
  have c: "apiKey ?env \<noteq> []" and e: "ok ?up"
    and f: "json ?up = Inr (completion ''Built X using Y.'')"
    and h: "''Built X using Y.'' \<noteq> []"
    by (simp_all add: sample_simps)
  have t: "requested_type (sample (Some ''summary'')) = ''summary''"
    "requested_type (sample (Some ''cursor'')) = ''cursor''"
    "requested_type (sample (Some ''readme'')) = ''readme''"
    by (simp_all add: sample_simps)
  have g: "first_completion (completion ''Built X using Y.'') = Some (JStr ''Built X using Y.'')"
    by (rule first_completion_completion)
  from C1_one_field_per_mode [OF a b c d e f g h, of "Some ''summary''"]
    C1_one_field_per_mode [OF a b c d e f g h, of "Some ''cursor''"]
    C1_one_field_per_mode [OF a b c d e f g h, of "Some ''readme''"]
    a [of "Some ''summary''"] b [of "Some ''summary''"] c d [of "Some ''summary''"] e g t
  show ?thesis by simp
qed

section \<open>A non-2xx upstream status\<close>

text \<open>
  C2, as the spec states it: on a non-2xx upstream status the response carries 401 for
  Unauthorized, 429 for RateLimited and 500 for UpstreamUnavailable and Internal. The
  route passes the upstream status on instead (\<^verbatim>\<open>{ status: response.status }\<close>): an
  upstream 503 is answered with 503 and an upstream 404 with 404, neither with 500.
\<close>

theorem C2_status_not_500:
  "response (POST (mock 503 (Inr JNull)) (Inr (sample None))) =
     \<lparr>payload = ErrorBody ''NVIDIA API service unavailable'', init_status = 503\<rparr> \<and>
   init_status (response (POST (mock 503 (Inr JNull)) (Inr (sample None)))) \<noteq> 500 \<and>
   response (POST (mock 404 (Inr JNull)) (Inr (sample None))) =
     \<lparr>payload = ErrorBody ''Failed to generate content'', init_status = 404\<rparr> \<and>
   init_status (response (POST (mock 404 (Inr JNull)) (Inr (sample None)))) \<noteq> 500"
  by (simp add: POST_def Let_def sample_simps errorMessage_def NextResponse_json_def)

text \<open>
  C2, amended: for every request whose upstream call returns a non-2xx status, the message
  is chosen by that status (401: invalid key; 429: rate limit; 500 and above: service
  unavailable; any other: the generic failure) and the status of the response is the
  upstream status itself, whenever a response with a body can carry that status (300 to
  599, other than 304). With any other status the construction of the response throws and
  the route answers with the Internal message and status 500.
\<close>

theorem C2_upstream_status_passed_on:
  assumes "markdown_text r \<noteq> []" and "code_text r \<noteq> []" and "apiKey env \<noteq> []"
    and "fetch env (call_for env r) = Inr upstream" and "\<not> ok upstream"
  shows "(300 \<le> status upstream \<and> status upstream \<le> 599 \<and> status upstream \<noteq> 304 \<longrightarrow>
            response (POST env (Inr r)) =
              \<lparr>payload =
                 ErrorBody
                   (if status upstream = 401 then ''Invalid API key''
                    else if status upstream = 429 then
                      ''Rate limit exceeded. Please try again later.''
                    else if 500 \<le> status upstream then ''NVIDIA API service unavailable''
                    else ''Failed to generate content''),
               init_status = status upstream\<rparr>) \<and>
         (status upstream < 200 \<or> 599 < status upstream \<or> status upstream = 304 \<longrightarrow>
            response (POST env (Inr r)) =
              \<lparr>payload =
                 ErrorBody ''Internal server error occurred while processing your request'',
               init_status = 500\<rparr>)"
  using assms
  by (auto simp: POST_not_ok errorMessage_def NextResponse_json_def catch_def ok_def)

theorem C2_upstream_status_passed_on_witness:
  "markdown_text (sample None) \<noteq> [] \<and> code_text (sample None) \<noteq> [] \<and>
   apiKey (mock 429 (Inr JNull)) \<noteq> [] \<and>
   fetch (mock 429 (Inr JNull)) (call_for (mock 429 (Inr JNull)) (sample None)) =
     Inr \<lparr>status = 429, bodyText = [], json = Inr JNull\<rparr> \<and>
   \<not> ok \<lparr>status = 429, bodyText = [], json = Inr JNull\<rparr> \<and>
   response (POST (mock 429 (Inr JNull)) (Inr (sample None))) =
     \<lparr>payload = ErrorBody ''Rate limit exceeded. Please try again later.'',
      init_status = 429\<rparr> \<and>
   fetch (mock 304 (Inr JNull)) (call_for (mock 304 (Inr JNull)) (sample None)) =
     Inr \<lparr>status = 304, bodyText = [], json = Inr JNull\<rparr> \<and>
   \<not> ok \<lparr>status = 304, bodyText = [], json = Inr JNull\<rparr> \<and>
   response (POST (mock 304 (Inr JNull)) (Inr (sample None))) =
     \<lparr>payload = ErrorBody ''Internal server error occurred while processing your request'',
      init_status = 500\<rparr>"
proof -
  let ?up = "\<lparr>status = 429, bodyText = [], json = Inr JNull\<rparr>"
  let ?up' = "\<lparr>status = 304, bodyText = [], json = Inr JNull\<rparr>"
  have a: "markdown_text (sample None) \<noteq> []" and b: "code_text (sample None) \<noteq> []"
    and c: "apiKey (mock 429 (Inr JNull)) \<noteq> []"
    and d: "fetch (mock 429 (Inr JNull)) (call_for (mock 429 (Inr JNull)) (sample None)) = Inr ?up"
    and e: "\<not> ok ?up"
    and c': "apiKey (mock 304 (Inr JNull)) \<noteq> []"
    and d': "fetch (mock 304 (Inr JNull)) (call_for (mock 304 (Inr JNull)) (sample None)) = Inr ?up'"
    and e': "\<not> ok ?up'"
    by (simp_all add: sample_simps)
  from C2_upstream_status_passed_on [OF a b c d e] C2_upstream_status_passed_on [OF a b c' d' e']
    a b c d e d' e'
  show ?thesis by simp
qed

section \<open>Empty input texts\<close>




section \<open>An upstream body without text\<close>

text \<open>
  Where the body of a 2xx upstream answer parses to a value other than null, the route
  does what C4 says: a first completion whose text is absent (undefined or null) or empty
  is answered with status 500 and the message that no content was generated, after the
  one upstream call. The spec's instance, an empty completion list, is such a body.
\<close>

lemma no_text_is_UpstreamEmpty:
  assumes "markdown_text r \<noteq> []" and "code_text r \<noteq> []" and "apiKey env \<noteq> []"
    and "fetch env (call_for env r) = Inr upstream" and "ok upstream"
    and "json upstream = Inr data" and "data \<noteq> JNull"
    and "first_completion data = None \<or> first_completion data = Some JNull \<or>
         first_completion data = Some (JStr [])"
  shows "POST env (Inr r) =
           \<lparr>response =
              \<lparr>payload = ErrorBody ''No content generated from AI'', init_status = 500\<rparr>,
            fetched = Some (call_for env r), console = []\<rparr>"
proof -
  from assms(8) have "case first_completion data of None \<Rightarrow> True | Some v \<Rightarrow> \<not> truthy v"
    by auto
  with assms(7) have "content_of data = Inr (JStr [])"
    by (simp add: content_of_falsy)
  then show ?thesis
    using assms(1-6) by (simp add: POST_content)
qed

text \<open>
  C4: a 2xx upstream answer whose first completion's text is empty or absent fails as
  UpstreamEmpty with status 500. The route misses two such answers. On a body that parses
  to null the first access \<^verbatim>\<open>data.choices\<close>, which lacks the \<^verbatim>\<open>?.\<close> of the accesses
  after it, throws, and the \<^verbatim>\<open>catch\<close> block answers with the Internal message. On a
  body that is not JSON, the empty body of a 204 answer included,
  \<^verbatim>\<open>response.json()\<close> throws a SyntaxError, and the
  \<^verbatim>\<open>catch\<close> block answers it as it answers a malformed request: with status 400 and
  the message \<^verbatim>\<open>Invalid JSON in request body\<close>. Beside them, the empty completion list
  and the empty object get the answer that C4 states.
\<close>

theorem C4_no_text_not_always_UpstreamEmpty:
  "response (POST (mock 200 (Inr JNull)) (Inr (sample None))) =
     \<lparr>payload = ErrorBody ''Internal server error occurred while processing your request'',
      init_status = 500\<rparr> \<and>
   payload (response (POST (mock 200 (Inr JNull)) (Inr (sample None)))) \<noteq>
     ErrorBody ''No content generated from AI'' \<and>
   response (POST (mock 200 (Inl SyntaxError)) (Inr (sample None))) =
     \<lparr>payload = ErrorBody ''Invalid JSON in request body'', init_status = 400\<rparr> \<and>
   init_status (response (POST (mock 200 (Inl SyntaxError)) (Inr (sample None)))) \<noteq> 500 \<and>
   response (POST (mock 204 (Inl SyntaxError)) (Inr (sample None))) =
     \<lparr>payload = ErrorBody ''Invalid JSON in request body'', init_status = 400\<rparr> \<and>
   response (POST (mock 200 (Inr (JObj [(''choices'', JArr [])]))) (Inr (sample None))) =
     \<lparr>payload = ErrorBody ''No content generated from AI'', init_status = 500\<rparr> \<and>
   response (POST (mock 200 (Inr (JObj []))) (Inr (sample None))) =
     \<lparr>payload = ErrorBody ''No content generated from AI'', init_status = 500\<rparr>"
  by (simp add: POST_def Let_def sample_simps content_of_def catch_def first_completion_def
      optional_def)

section \<open>A missing credential\<close>




section \<open>An unrecognized mode\<close>

text \<open>
  C7: for a type other than the three recognized ones, \<^verbatim>\<open>getPrompt\<close> returns the
  combined template; a request with both texts and a key still calls the upstream service,
  with that prompt; and when the call succeeds with a non-empty text the response has
  status 200 and a result with none of the three fields set.
\<close>

theorem C7_unrecognized_mode:
  assumes "requested_type r \<noteq> ''summary''" and "requested_type r \<noteq> ''cursor''"
    and "requested_type r \<noteq> ''readme''"
    and "markdown_text r \<noteq> []" and "code_text r \<noteq> []" and "apiKey env \<noteq> []"
  shows "getPrompt (requested_type r) m c = joinLines (combined_lines m c) \<and>
         fetched (POST env (Inr r)) =
           Some (outbound (apiKey env) (requested_type r)
                   (joinLines (combined_lines (markdown_text r) (code_text r)))) \<and>
         (fetch env (call_for env r) = Inr upstream \<and> ok upstream \<and>
          json upstream = Inr data \<and> first_completion data = Some (JStr s) \<and> s \<noteq> [] \<longrightarrow>
            response (POST env (Inr r)) =
              \<lparr>payload = ResultBody \<lparr>readme = None, cursorLog = None, summary = None\<rparr>,
               init_status = 200\<rparr>)"
proof (intro conjI impI)
  show p: "getPrompt (requested_type r) m c = joinLines (combined_lines m c)" for m c
    using assms(1-3) by (simp add: getPrompt_def)
  show "fetched (POST env (Inr r)) =
           Some (outbound (apiKey env) (requested_type r)
                   (joinLines (combined_lines (markdown_text r) (code_text r))))"
    using assms(4-6) by (simp add: fetched_POST call_for_def p)
  assume u: "fetch env (call_for env r) = Inr upstream \<and> ok upstream \<and>
          json upstream = Inr data \<and> first_completion data = Some (JStr s) \<and> s \<noteq> []"
  then have "content_of data = Inr (JStr s)"
    by (simp add: content_of_text)
  with u assms(4-6) have "response (POST env (Inr r)) =
      \<lparr>payload = ResultBody (result_for (requested_type r) (JStr s)), init_status = 200\<rparr>"
    by (simp add: POST_content)
  then show "response (POST env (Inr r)) =
              \<lparr>payload = ResultBody \<lparr>readme = None, cursorLog = None, summary = None\<rparr>,
               init_status = 200\<rparr>"
    using assms(1-3) by (simp add: result_for_def)
qed

theorem C7_unrecognized_mode_witness:
  "requested_type (sample (Some ''combined'')) \<noteq> ''summary'' \<and>
   requested_type (sample (Some ''combined'')) \<noteq> ''cursor'' \<and>
   requested_type (sample (Some ''combined'')) \<noteq> ''readme'' \<and>
   markdown_text (sample (Some ''combined'')) \<noteq> [] \<and>
   code_text (sample (Some ''combined'')) \<noteq> [] \<and>
   apiKey (mock 200 (Inr (completion ''Built X using Y.''))) \<noteq> [] \<and>
   getPrompt (requested_type (sample (Some ''combined''))) ''chat'' ''code'' =
     joinLines (combined_lines ''chat'' ''code'') \<and>
   fetched (POST (mock 200 (Inr (completion ''Built X using Y.''))) (Inr (sample (Some ''combined'')))) =
     Some (outbound ''key'' ''combined'' (joinLines (combined_lines ''chat'' ''code''))) \<and>
   response (POST (mock 200 (Inr (completion ''Built X using Y.''))) (Inr (sample (Some ''combined'')))) =
     \<lparr>payload = ResultBody \<lparr>readme = None, cursorLog = None, summary = None\<rparr>,
      init_status = 200\<rparr>"
proof -
  let ?env = "mock 200 (Inr (completion ''Built X using Y.''))"
  let ?r = "sample (Some ''combined'')"
  let ?up = "\<lparr>status = 200, bodyText = [], json = Inr (completion ''Built X using Y.'')\<rparr>"
  have a: "requested_type ?r \<noteq> ''summary''" and b: "requested_type ?r \<noteq> ''cursor''"
    and c: "requested_type ?r \<noteq> ''readme''"
    and d: "markdown_text ?r \<noteq> []" and e: "code_text ?r \<noteq> []" and f: "apiKey ?env \<noteq> []"
    by (simp_all add: sample_simps)
  have g: "fetch ?env (call_for ?env ?r) = Inr ?up" "ok ?up"
    "json ?up = Inr (completion ''Built X using Y.'')"
    "first_completion (completion ''Built X using Y.'') = Some (JStr ''Built X using Y.'')"
    "''Built X using Y.'' \<noteq> []"
    by (simp_all add: sample_simps first_completion_completion)
  have v: "requested_type ?r = ''combined''" "markdown_text ?r = ''chat''"
    "code_text ?r = ''code''" "apiKey ?env = ''key''"
    by (simp_all add: sample_simps)
  from C7_unrecognized_mode [OF a b c d e f, of "''chat''" "''code''" ?up
      "completion ''Built X using Y.''" "''Built X using Y.''"] g a b c d e f
  show ?thesis unfolding v by simp
qed

section \<open>The parameters of the outbound call\<close>

text \<open>
  C8: whenever the route calls the upstream service, the call carries the composed prompt
  as its only message, in the role \<^verbatim>\<open>user\<close>, with temperature 0.7, top_p 1,
  streaming off, and max_tokens 512 for the type summary and 2048 for every other type.
\<close>

theorem C8_outbound_parameters:
  assumes "fetched (POST env request) = Some call"
  shows "\<exists>r. request = Inr r \<and>
           messages (body call) =
             [\<lparr>role = ''user'',
               content = getPrompt (requested_type r) (markdown_text r) (code_text r)\<rparr>] \<and>
           temperature (body call) = 7 / 10 \<and>
           top_p (body call) = 1 \<and>
           stream (body call) = False \<and>
           max_tokens (body call) = (if requested_type r = ''summary'' then 512 else 2048)"
proof (cases request)
  case (Inl e)
  with assms show ?thesis by (simp add: fetched_POST)
next
  case (Inr r)
  with assms have "call = call_for env r"
    by (simp add: fetched_POST split: if_splits)
  with Inr show ?thesis
    by (simp add: call_for_def outbound_def)
qed

theorem C8_outbound_parameters_witness:
  "fetched (POST (mock 200 (Inr (completion ''text''))) (Inr (sample (Some ''readme'')))) =
     Some (call_for (mock 200 (Inr (completion ''text''))) (sample (Some ''readme''))) \<and>
   messages (body (call_for (mock 200 (Inr (completion ''text''))) (sample (Some ''readme'')))) =
     [\<lparr>role = ''user'', content = getPrompt ''readme'' ''chat'' ''code''\<rparr>] \<and>
   temperature (body (call_for (mock 200 (Inr (completion ''text''))) (sample (Some ''readme'')))) =
     7 / 10 \<and>
   max_tokens (body (call_for (mock 200 (Inr (completion ''text''))) (sample (Some ''readme'')))) =
     2048 \<and>
   max_tokens (body (call_for (mock 200 (Inr (completion ''text''))) (sample None))) = 512"
proof -
  let ?env = "mock 200 (Inr (completion ''text''))"
  have a: "fetched (POST ?env (Inr (sample (Some ''readme'')))) =
      Some (call_for ?env (sample (Some ''readme'')))"
    and b: "fetched (POST ?env (Inr (sample None))) = Some (call_for ?env (sample None))"
    by (simp_all add: fetched_POST sample_simps)
  have v: "requested_type (sample (Some ''readme'')) = ''readme''"
    "requested_type (sample None) = ''summary''"
    "markdown_text (sample (Some ''readme'')) = ''chat''"
    "code_text (sample (Some ''readme'')) = ''code''"
    by (simp_all add: sample_simps)
  from C8_outbound_parameters [OF a] C8_outbound_parameters [OF b] a v
  show ?thesis by simp
qed

section \<open>The readiness predicate and the selection\<close>

subsection \<open>The extension that the page computes\<close>

lemma split_not_Nil: "split sep n \<noteq> []"
  by (induction n) (auto split: list.splits)

lemma split_no_sep: "sep \<notin> set n \<Longrightarrow> split sep n = [n]"
  by (induction n) auto

lemma split_single: "split sep n = [w] \<Longrightarrow> sep \<notin> set n"
proof (induction n arbitrary: w)
  case Nil
  show ?case by simp
next
  case (Cons c cs)
  show ?case
  proof (cases "c = sep")
    case True
    with Cons.prems split_not_Nil [of sep cs] show ?thesis by simp
  next
    case False
    with Cons.prems split_not_Nil [of sep cs] obtain w' where "split sep cs = [w']"
      by (auto split: list.splits)
    with Cons.IH False show ?thesis by auto
  qed
qed

lemma last_split: "last (split sep n) = rev (takeWhile (\<lambda>x. x \<noteq> sep) (rev n))"
proof (induction n)
  case Nil
  show ?case by simp
next
  case (Cons c cs)
  show ?case
  proof (cases "sep \<in> set cs")
    case True
    then have t: "takeWhile (\<lambda>x. x \<noteq> sep) (rev cs @ [c]) = takeWhile (\<lambda>x. x \<noteq> sep) (rev cs)"
      by (intro takeWhile_append1[of sep]) auto
    from Cons True split_not_Nil [of sep cs] show ?thesis
      by (auto simp: t split: list.splits dest: split_single)
  next
    case False
    then have t: "takeWhile (\<lambda>x. x \<noteq> sep) (rev cs @ [c]) = rev cs @ takeWhile (\<lambda>x. x \<noteq> sep) [c]"
      by (intro takeWhile_append2) auto
    from False show ?thesis
      by (simp add: split_no_sep t)
  qed
qed

lemma ext_last_segment: "ext f = ''.'' @ toLowerCase (last_segment (name f))"
  by (simp add: ext_def pop_def split_not_Nil last_split last_segment_def)

lemma is_chat: "ext f \<in> set [''.md'', ''.txt''] \<longleftrightarrow> category f = Chat"
  by (auto simp: ext_last_segment category_def)

lemma is_code: "ext f \<in> set [''.js'', ''.ts''] \<longleftrightarrow> category f = Code"
  by (auto simp: ext_last_segment category_def)

lemma hasRequiredFiles_category:
  "hasRequiredFiles fs \<longleftrightarrow> (\<exists>f\<in>set fs. category f = Chat) \<and> (\<exists>f\<in>set fs. category f = Code)"
  unfolding hasRequiredFiles_def Let_def list_ex_iff is_chat is_code ..

lemma markdownFile_first:
  "markdownFile fs = Some f \<longleftrightarrow>
     (\<exists>i<length fs. fs ! i = f \<and> category f = Chat \<and> (\<forall>j<i. category (fs ! j) \<noteq> Chat))"
  unfolding markdownFile_def find_Some_iff is_chat by auto

lemma codeFile_first:
  "codeFile fs = Some f \<longleftrightarrow>
     (\<exists>i<length fs. fs ! i = f \<and> category f = Code \<and> (\<forall>j<i. category (fs ! j) \<noteq> Code))"
  unfolding codeFile_def find_Some_iff is_code by auto

lemma hasRequiredFiles_selected:
  "hasRequiredFiles fs \<longleftrightarrow> markdownFile fs \<noteq> None \<and> codeFile fs \<noteq> None"
  by (auto simp: hasRequiredFiles_def markdownFile_def codeFile_def list_ex_iff find_None_iff)

lemma category_spec:
  "CHR ''.'' \<in> set (name f) \<or> category f = Unrecognized \<Longrightarrow> category f = spec_category f"
  by (auto simp: category_def spec_category_def split: if_splits)

subsection \<open>Where the page classifies as the spec does\<close>

text \<open>
  On an upload in which every name has a dot, or is not itself one of the four accepted
  extensions, the readiness predicate and the two selections are those of the spec: ready
  exactly when a Chat file and a Code file are present, and each selection the first file
  of its category in the order of the upload.
\<close>

lemma readiness_by_extension:
  assumes "\<forall>f\<in>set fs. CHR ''.'' \<in> set (name f) \<or> category f = Unrecognized"
  shows "hasRequiredFiles fs \<longleftrightarrow>
     (\<exists>f\<in>set fs. spec_category f = Chat) \<and> (\<exists>f\<in>set fs. spec_category f = Code)"
proof -
  have "category x = spec_category x" if "x \<in> set fs" for x
    using that assms by (simp add: category_spec)
  then show ?thesis
    unfolding hasRequiredFiles_category by auto
qed

lemma first_by_extension:
  assumes "\<forall>f\<in>set fs. CHR ''.'' \<in> set (name f) \<or> category f = Unrecognized"
  shows "(\<exists>i<length fs. fs ! i = f \<and> category f = k \<and> (\<forall>j<i. category (fs ! j) \<noteq> k)) \<longleftrightarrow>
     (\<exists>i<length fs. fs ! i = f \<and> spec_category f = k \<and> (\<forall>j<i. spec_category (fs ! j) \<noteq> k))"
proof -
  have same: "category (fs ! i) = spec_category (fs ! i)" if "i < length fs" for i
  proof -
    from that have "fs ! i \<in> set fs" by simp
    with assms have "CHR ''.'' \<in> set (name (fs ! i)) \<or> category (fs ! i) = Unrecognized"
      by blast
    then show ?thesis by (rule category_spec)
  qed
  show ?thesis
  proof
    assume "\<exists>i<length fs. fs ! i = f \<and> category f = k \<and> (\<forall>j<i. category (fs ! j) \<noteq> k)"
    then obtain i where i: "i < length fs" "fs ! i = f" "category f = k"
      "\<forall>j<i. category (fs ! j) \<noteq> k"
      by blast
    from i(1,2,3) same [of i] have "spec_category f = k" by simp
    moreover from i(1,4) have "\<forall>j<i. spec_category (fs ! j) \<noteq> k"
      using same by (metis less_trans)
    ultimately show "\<exists>i<length fs. fs ! i = f \<and> spec_category f = k \<and>
        (\<forall>j<i. spec_category (fs ! j) \<noteq> k)"
      using i(1,2) by blast
  next
    assume "\<exists>i<length fs. fs ! i = f \<and> spec_category f = k \<and>
        (\<forall>j<i. spec_category (fs ! j) \<noteq> k)"
    then obtain i where i: "i < length fs" "fs ! i = f" "spec_category f = k"
      "\<forall>j<i. spec_category (fs ! j) \<noteq> k"
      by blast
    from i(1,2,3) same [of i] have "category f = k" by simp
    moreover from i(1,4) have "\<forall>j<i. category (fs ! j) \<noteq> k"
      using same by (metis less_trans)
    ultimately show "\<exists>i<length fs. fs ! i = f \<and> category f = k \<and>
        (\<forall>j<i. category (fs ! j) \<noteq> k)"
      using i(1,2) by blast
  qed
qed

lemma selection_by_extension:
  assumes "\<forall>f\<in>set fs. CHR ''.'' \<in> set (name f) \<or> category f = Unrecognized"
  shows "markdownFile fs = Some f \<longleftrightarrow>
      (\<exists>i<length fs. fs ! i = f \<and> spec_category f = Chat \<and>
         (\<forall>j<i. spec_category (fs ! j) \<noteq> Chat))"
    and "codeFile fs = Some g \<longleftrightarrow>
      (\<exists>i<length fs. fs ! i = g \<and> spec_category g = Code \<and>
         (\<forall>j<i. spec_category (fs ! j) \<noteq> Code))"
  unfolding markdownFile_first codeFile_first
  using assms by (rule first_by_extension)+

text \<open>
  The examples of the spec, through \<^verbatim>\<open>generateContent\<close>: of
  \<^verbatim>\<open>[a.py, b.md, c.js]\<close> the page posts the texts of \<^verbatim>\<open>b.md\<close> and \<^verbatim>\<open>c.js\<close>;
  \<^verbatim>\<open>[a.py]\<close> is not ready; with two Chat files before a Code file it posts the text
  of the first, \<^verbatim>\<open>x.md\<close>; and \<^verbatim>\<open>[x.md, y.txt]\<close> alone is not ready, so that
  nothing is selected from it.
\<close>

lemma classifier_examples:
  "hasRequiredFiles
     (upload [(''a.py'', ''pass''), (''b.md'', ''chat log''), (''c.js'', ''let x = 1'')])"
  "generateContent
     (upload [(''a.py'', ''pass''), (''b.md'', ''chat log''), (''c.js'', ''let x = 1'')])
     ''summary'' =
     Inr \<lparr>markdown = Some ''chat log'', code = Some ''let x = 1'', type = Some ''summary''\<rparr>"
  "\<not> hasRequiredFiles (upload [(''a.py'', ''pass'')])"
  "generateContent
     (upload [(''x.md'', ''first''), (''y.txt'', ''second''), (''z.js'', ''let x = 1'')])
     ''summary'' =
     Inr \<lparr>markdown = Some ''first'', code = Some ''let x = 1'', type = Some ''summary''\<rparr>"
  "\<not> hasRequiredFiles (upload [(''x.md'', ''first''), (''y.txt'', ''second'')])"
  "generateContent (upload [(''x.md'', ''first''), (''y.txt'', ''second'')]) ''summary'' =
     Inl ''Please upload at least one chat file (.md or .txt) and one code file (.js or .ts).''"
  by code_simp+

subsection \<open>The claim\<close>

text \<open>
  C6: \<^verbatim>\<open>hasRequiredFiles\<close> holds exactly when a Chat file (\<^verbatim>\<open>.md\<close>, \<^verbatim>\<open>.txt\<close>)
  and a Code file (\<^verbatim>\<open>.js\<close>, \<^verbatim>\<open>.ts\<close>) are both present, and the selection picks the
  first of each. The page misses the name without a dot: it computes
  \<^verbatim>\<open>'.' + name.split('.').pop()\<close>, which for two files named \<^verbatim>\<open>md\<close> and
  \<^verbatim>\<open>js\<close> is \<^verbatim>\<open>.md\<close> and \<^verbatim>\<open>.js\<close>. Neither file has an extension, and both are
  Unrecognized for the spec; yet the page is ready, selects them, and posts their texts.
\<close>

theorem C6_no_extension_counts:
  "hasRequiredFiles (upload [(''md'', ''notes''), (''js'', ''let x = 1'')]) \<and>
   markdownFile (upload [(''md'', ''notes''), (''js'', ''let x = 1'')]) =
     Some \<lparr>name = ''md'', contents = ''notes''\<rparr> \<and>
   codeFile (upload [(''md'', ''notes''), (''js'', ''let x = 1'')]) =
     Some \<lparr>name = ''js'', contents = ''let x = 1''\<rparr> \<and>
   generateContent (upload [(''md'', ''notes''), (''js'', ''let x = 1'')]) ''summary'' =
     Inr \<lparr>markdown = Some ''notes'', code = Some ''let x = 1'', type = Some ''summary''\<rparr> \<and>
   spec_category \<lparr>name = ''md'', contents = ''notes''\<rparr> = Unrecognized \<and>
   spec_category \<lparr>name = ''js'', contents = ''let x = 1''\<rparr> = Unrecognized \<and>
   \<not> ((\<exists>f\<in>set (upload [(''md'', ''notes''), (''js'', ''let x = 1'')]). spec_category f = Chat) \<and>
      (\<exists>f\<in>set (upload [(''md'', ''notes''), (''js'', ''let x = 1'')]). spec_category f = Code))"
  by code_simp

section \<open>The structure of the templates\<close>

subsection \<open>The leftmost separator\<close>

lemma after_first_leftmost:
  "p = a @ s @ r \<Longrightarrow> \<exists>r'. after_first s p = Some r' \<and> suffix r r'"
proof (induction a arbitrary: p)
  case Nil
  then have p: "p = s @ r" by simp
  show ?case
  proof (cases p)
    case Nil
    with p show ?thesis by simp
  next
    case (Cons x xs)
    with p have "prefix s (x # xs)" and "drop (length s) (x # xs) = r"
      by auto
    with Cons show ?thesis by simp
  qed
next
  case (Cons y a)
  then have p: "p = y # (a @ s @ r)" by simp
  show ?case
  proof (cases "prefix s p")
    case True
    have "suffix r p"
      using p by (metis Cons.prems append_assoc suffixI)
    moreover have "suffix (drop (length s) p) p"
      by (rule suffix_drop)
    moreover have "length r \<le> length (drop (length s) p)"
      using p by simp
    ultimately have "suffix r (drop (length s) p)"
      by (rule suffix_length_suffix)
    with True p show ?thesis by simp
  next
    case False
    from Cons.IH [of "a @ s @ r"] obtain r' where "after_first s (a @ s @ r) = Some r'" "suffix r r'"
      by auto
    with False p show ?thesis by simp
  qed
qed

lemma two_separators:
  assumes "p = a @ s @ b @ m @ d @ s @ rest"
  shows "\<exists>r'. after_first s p = Some r' \<and> sublist s r'"
proof -
  from after_first_leftmost [of p a s "b @ m @ d @ s @ rest"] assms
  obtain r' where r: "after_first s p = Some r'" "suffix (b @ m @ d @ s @ rest) r'"
    by auto
  have "sublist s ((b @ m @ d) @ s @ rest)"
    by (rule sublist_appendI)
  then have "sublist s (b @ m @ d @ s @ rest)" by simp
  moreover from r(2) have "sublist (b @ m @ d @ s @ rest) r'"
    by (rule suffix_imp_sublist)
  ultimately have "sublist s r'"
    by (rule sublist_order.order.trans)
  with r(1) show ?thesis by simp
qed

lemma summary_one_separator:
  "case after_first ''---'' (getPrompt ''summary'' ''chat'' ''code'') of
     None \<Rightarrow> False | Some r \<Rightarrow> \<not> sublist ''---'' r"
  by code_simp

subsection \<open>The lines of a template around its separator\<close>

lemma joinLines_append:
  "xs \<noteq> [] \<Longrightarrow> ys \<noteq> [] \<Longrightarrow> joinLines (xs @ ys) = joinLines xs @ CHR 0x0A # joinLines ys"
  by (induction xs rule: joinLines.induct) (auto simp: neq_Nil_conv)

lemma summary_split:
  "summary_lines m c =
     take 10 (summary_lines [] []) @
     [''---'', [], ''## Chat Transcript:'', m, [], ''## Final Code:'', c]"
  by (simp add: summary_lines_def)

lemma readme_split:
  "readme_lines m c =
     take 19 (readme_lines [] []) @
     [''---'', [], ''## Chat Transcript:'', m, [], ''## Final Code:'', c]"
  by (simp add: readme_lines_def)

lemma cursor_split:
  "cursor_lines m c =
     take 23 (cursor_lines [] []) @
     [''---'', [], ''## Chat Transcript:'', m, [], ''## Final Code:'', c] @
     [[], ''---'', []] @ drop 33 (cursor_lines [] [])"
  by (simp add: cursor_lines_def)

lemma combined_split:
  "combined_lines m c =
     take 21 (combined_lines [] []) @
     [''---'', [], ''## Chat Export:'', m, [], ''## Final Code:'', c] @
     [[], ''---'', []] @ drop 31 (combined_lines [] [])"
  by (simp add: combined_lines_def)

lemma instructions_not_Nil:
  "take 10 (summary_lines [] []) \<noteq> []"
  "take 19 (readme_lines [] []) \<noteq> []"
  "take 23 (cursor_lines [] []) \<noteq> []"
  "take 21 (combined_lines [] []) \<noteq> []"
  by (simp_all add: summary_lines_def readme_lines_def cursor_lines_def combined_lines_def)

lemma formatting_not_Nil:
  "drop 33 (cursor_lines [] []) \<noteq> []"
  "drop 31 (combined_lines [] []) \<noteq> []"
  by (simp_all add: cursor_lines_def combined_lines_def)

lemma formatting_text:
  "joinLines (drop 33 (cursor_lines [] [])) \<noteq> []"
  "joinLines (drop 31 (combined_lines [] [])) \<noteq> []"
  by (simp_all add: cursor_lines_def combined_lines_def)

lemma joinLines_split:
  assumes "ins \<noteq> []"
  shows "joinLines (ins @ [''---'', [], heading, m, [], final, c]) =
     (joinLines ins @ [CHR 0x0A]) @ ''---'' @ joinLines [[], [], heading, m, [], final, c] @ []"
  using joinLines_append [OF assms, of "[''---'', [], heading, m, [], final, c]"] by simp

lemma joinLines_split_trailing:
  assumes "ins \<noteq> []" and "fmt \<noteq> []"
  shows "joinLines (ins @ [''---'', [], heading, m, [], final, c] @ [[], ''---'', []] @ fmt) =
     (joinLines ins @ [CHR 0x0A]) @ ''---'' @ joinLines [[], [], heading, m, [], final, c] @
     joinLines [[], [], ''---'', [], joinLines fmt]"
proof -
  have "joinLines ([''---'', [], heading, m, [], final, c, [], ''---'', []] @ fmt) =
      joinLines [''---'', [], heading, m, [], final, c, [], ''---'', []] @ CHR 0x0A # joinLines fmt"
    using assms(2) by (intro joinLines_append) simp_all
  with joinLines_append [OF assms(1), of "[''---'', [], heading, m, [], final, c] @ [[], ''---'', []] @ fmt"]
  show ?thesis by simp
qed

lemma summary_structure:
  "joinLines (summary_lines m c) =
     (joinLines (take 10 (summary_lines [] [])) @ [CHR 0x0A]) @ ''---'' @
     joinLines [[], [], ''## Chat Transcript:'', m, [], ''## Final Code:'', c] @ []"
  by (subst summary_split) (rule joinLines_split [OF instructions_not_Nil(1)])

lemma readme_structure:
  "joinLines (readme_lines m c) =
     (joinLines (take 19 (readme_lines [] [])) @ [CHR 0x0A]) @ ''---'' @
     joinLines [[], [], ''## Chat Transcript:'', m, [], ''## Final Code:'', c] @ []"
  by (subst readme_split) (rule joinLines_split [OF instructions_not_Nil(2)])

lemma cursor_structure:
  "joinLines (cursor_lines m c) =
     (joinLines (take 23 (cursor_lines [] [])) @ [CHR 0x0A]) @ ''---'' @
     joinLines [[], [], ''## Chat Transcript:'', m, [], ''## Final Code:'', c] @
     joinLines [[], [], ''---'', [], joinLines (drop 33 (cursor_lines [] []))]"
  by (subst cursor_split)
    (rule joinLines_split_trailing [OF instructions_not_Nil(3) formatting_not_Nil(1)])

lemma combined_structure:
  "joinLines (combined_lines m c) =
     (joinLines (take 21 (combined_lines [] [])) @ [CHR 0x0A]) @ ''---'' @
     joinLines [[], [], ''## Chat Export:'', m, [], ''## Final Code:'', c] @
     joinLines [[], [], ''---'', [], joinLines (drop 31 (combined_lines [] []))]"
  by (subst combined_split)
    (rule joinLines_split_trailing [OF instructions_not_Nil(4) formatting_not_Nil(2)])

lemma instructions_without_separator:
  "\<not> sublist ''---'' (joinLines (take 10 (summary_lines [] [])) @ [CHR 0x0A])"
  "\<not> sublist ''---'' (joinLines (take 19 (readme_lines [] [])) @ [CHR 0x0A])"
  "\<not> sublist ''---'' (joinLines (take 23 (cursor_lines [] [])) @ [CHR 0x0A])"
  "\<not> sublist ''---'' (joinLines (take 21 (combined_lines [] [])) @ [CHR 0x0A])"
  by code_simp+

subsection \<open>The claim\<close>

text \<open>
  C10, as the spec states it: every template is instructions, a separator
  \<^verbatim>\<open>---\<close>, the transcript, a separator \<^verbatim>\<open>---\<close>, the code, and optional trailing
  instructions. The summary template has one separator only, before the transcript:
  whatever stands between the parts, the prompt for the texts \<^verbatim>\<open>chat\<close> and
  \<^verbatim>\<open>code\<close> cannot be cut in that way.
\<close>

theorem C10_summary_has_one_separator:
  "\<not> (\<exists>a b d e f.
        getPrompt ''summary'' ''chat'' ''code'' =
          a @ ''---'' @ b @ ''chat'' @ d @ ''---'' @ e @ ''code'' @ f)"
proof
  assume "\<exists>a b d e f.
        getPrompt ''summary'' ''chat'' ''code'' =
          a @ ''---'' @ b @ ''chat'' @ d @ ''---'' @ e @ ''code'' @ f"
  then obtain a b d e f where
    "getPrompt ''summary'' ''chat'' ''code'' =
       a @ ''---'' @ b @ ''chat'' @ d @ ''---'' @ (e @ ''code'' @ f)"
    by auto
  then have "\<exists>r'. after_first ''---'' (getPrompt ''summary'' ''chat'' ''code'') = Some r' \<and>
      sublist ''---'' r'"
    by (rule two_separators)
  with summary_one_separator show False
    by auto
qed

text \<open>
  C10, amended: for every type and every pair of texts the prompt is: instructions, which
  are not empty and do not contain the separator; the separator \<^verbatim>\<open>---\<close>; a blank line
  and a heading line, which is \<^verbatim>\<open>## Chat Transcript:\<close> in the summary, cursor and
  readme templates and \<^verbatim>\<open>## Chat Export:\<close> in the combined template; the transcript as
  it is; a blank line and the heading line \<^verbatim>\<open>## Final Code:\<close>; the code as it is; and
  then nothing more in the summary and readme templates, and in the cursor and combined
  templates a blank line, a second separator \<^verbatim>\<open>---\<close>, a blank line and formatting
  instructions, which are not empty. No separator stands between the transcript and the
  code. The instructions and the trailing part depend on the type only.
\<close>

theorem C10_template_structure:
  "\<exists>ins tr.
     (\<forall>m c. getPrompt t m c =
        ins @ ''---'' @
        joinLines
          [[], [],
           if t = ''summary'' \<or> t = ''cursor'' \<or> t = ''readme'' then ''## Chat Transcript:''
           else ''## Chat Export:'',
           m, [], ''## Final Code:'', c] @
        tr) \<and>
     ins \<noteq> [] \<and> \<not> sublist ''---'' ins \<and>
     ((t = ''summary'' \<or> t = ''readme'') \<and> tr = [] \<or>
      t \<noteq> ''summary'' \<and> t \<noteq> ''readme'' \<and>
      (\<exists>fmt. fmt \<noteq> [] \<and> tr = joinLines [[], [], ''---'', [], fmt]))"
proof -
  let ?heading = "if t = ''summary'' \<or> t = ''cursor'' \<or> t = ''readme'' then ''## Chat Transcript:''
     else ''## Chat Export:''"
  consider (summary) "t = ''summary''" | (cursor) "t = ''cursor''" | (readme) "t = ''readme''"
    | (other) "t \<noteq> ''summary''" "t \<noteq> ''cursor''" "t \<noteq> ''readme''"
    by blast
  then show ?thesis
  proof cases
    case summary
    let ?ins = "joinLines (take 10 (summary_lines [] [])) @ [CHR 0x0A]"
    have h: "?heading = ''## Chat Transcript:''"
      using summary by simp
    have "getPrompt t m c = joinLines (summary_lines m c)" for m c
      using summary by (simp add: getPrompt_def)
    then have "\<forall>m c. getPrompt t m c =
        ?ins @ ''---'' @ joinLines [[], [], ?heading, m, [], ''## Final Code:'', c] @ []"
      unfolding h by (simp only: summary_structure) simp
    moreover have "?ins \<noteq> []" by simp
    moreover note instructions_without_separator(1)
    ultimately show ?thesis using summary by blast
  next
    case readme
    let ?ins = "joinLines (take 19 (readme_lines [] [])) @ [CHR 0x0A]"
    have h: "?heading = ''## Chat Transcript:''"
      using readme by simp
    have "getPrompt t m c = joinLines (readme_lines m c)" for m c
      using readme by (simp add: getPrompt_def)
    then have "\<forall>m c. getPrompt t m c =
        ?ins @ ''---'' @ joinLines [[], [], ?heading, m, [], ''## Final Code:'', c] @ []"
      unfolding h by (simp only: readme_structure) simp
    moreover have "?ins \<noteq> []" by simp
    moreover note instructions_without_separator(2)
    ultimately show ?thesis using readme by blast
  next
    case cursor
    let ?ins = "joinLines (take 23 (cursor_lines [] [])) @ [CHR 0x0A]"
    let ?fmt = "joinLines (drop 33 (cursor_lines [] []))"
    have h: "?heading = ''## Chat Transcript:''"
      using cursor by simp
    have "getPrompt t m c = joinLines (cursor_lines m c)" for m c
      using cursor by (simp add: getPrompt_def)
    then have "\<forall>m c. getPrompt t m c =
        ?ins @ ''---'' @ joinLines [[], [], ?heading, m, [], ''## Final Code:'', c] @
        joinLines [[], [], ''---'', [], ?fmt]"
      unfolding h by (simp only: cursor_structure) simp
    moreover have "?ins \<noteq> []" by simp
    moreover note instructions_without_separator(3) formatting_text(1)
    moreover have "t \<noteq> ''summary''" "t \<noteq> ''readme''" using cursor by simp_all
    ultimately show ?thesis by blast
  next
    case other
    let ?ins = "joinLines (take 21 (combined_lines [] [])) @ [CHR 0x0A]"
    let ?fmt = "joinLines (drop 31 (combined_lines [] []))"
    have h: "?heading = ''## Chat Export:''"
      using other by simp
    have "getPrompt t m c = joinLines (combined_lines m c)" for m c
      using other by (simp add: getPrompt_def)
    then have "\<forall>m c. getPrompt t m c =
        ?ins @ ''---'' @ joinLines [[], [], ?heading, m, [], ''## Final Code:'', c] @
        joinLines [[], [], ''---'', [], ?fmt]"
      unfolding h by (simp only: combined_structure) simp
    moreover have "?ins \<noteq> []" by simp
    moreover note instructions_without_separator(4) formatting_text(2)
    ultimately show ?thesis using other by blast
  qed
qed

section \<open>A request body that is not JSON\<close>

text \<open>
  C9, as the spec states it: a request whose body cannot be parsed, so that
  \<^verbatim>\<open>request.json()\<close> throws a SyntaxError, is an Internal failure with status 500.
  The route answers it otherwise: the \<^verbatim>\<open>catch\<close> block tests
  \<^verbatim>\<open>error instanceof SyntaxError\<close> first and returns status 400.
\<close>

theorem C9_malformed_request_not_500:
  "response
     (POST \<lparr>NVIDIA_API_KEY = Some ''key'', fetch = (\<lambda>call. Inl TypeError)\<rparr> (Inl SyntaxError)) =
     \<lparr>payload = ErrorBody ''Invalid JSON in request body'', init_status = 400\<rparr> \<and>
   init_status
     (response
       (POST \<lparr>NVIDIA_API_KEY = Some ''key'', fetch = (\<lambda>call. Inl TypeError)\<rparr>
          (Inl SyntaxError))) \<noteq> 500"
  by (simp add: POST_thrown catch_def)

text \<open>
  C9, amended: a request whose body cannot be parsed is answered with status 400 and the
  message \<^verbatim>\<open>Invalid JSON in request body\<close>, whatever the environment, without a call
  of the upstream service; the Internal answer with status 500 is what any other error
  thrown at that point gets.
\<close>

theorem C9_malformed_request_is_400:
  "POST env (Inl SyntaxError) =
     \<lparr>response =
        \<lparr>payload = ErrorBody ''Invalid JSON in request body'', init_status = 400\<rparr>,
      fetched = None,
      console = [[LogStr ''API Error:'', LogExn SyntaxError]]\<rparr> \<and>
   (e \<noteq> SyntaxError \<longrightarrow>
      POST env (Inl e) =
        \<lparr>response =
           \<lparr>payload =
              ErrorBody ''Internal server error occurred while processing your request'',
            init_status = 500\<rparr>,
         fetched = None,
         console = [[LogStr ''API Error:'', LogExn e]]\<rparr>)"
  by (simp add: POST_thrown catch_def)

text \<open>The two other errors of the model, each thrown in place of the SyntaxError.\<close>

theorem C9_malformed_request_is_400_witness:
  "TypeError \<noteq> SyntaxError \<and>
   POST no_key (Inl TypeError) =
     \<lparr>response =
        \<lparr>payload = ErrorBody ''Internal server error occurred while processing your request'',
         init_status = 500\<rparr>,
      fetched = None,
      console = [[LogStr ''API Error:'', LogExn TypeError]]\<rparr> \<and>
   RangeError \<noteq> SyntaxError \<and>
   POST no_key (Inl RangeError) =
     \<lparr>response =
        \<lparr>payload = ErrorBody ''Internal server error occurred while processing your request'',
         init_status = 500\<rparr>,
      fetched = None,
      console = [[LogStr ''API Error:'', LogExn RangeError]]\<rparr> \<and>
   POST no_key (Inl SyntaxError) =
     \<lparr>response =
        \<lparr>payload = ErrorBody ''Invalid JSON in request body'', init_status = 400\<rparr>,
      fetched = None,
      console = [[LogStr ''API Error:'', LogExn SyntaxError]]\<rparr>"
  using C9_malformed_request_is_400 [of no_key TypeError]
    C9_malformed_request_is_400 [of no_key RangeError]
  by simp

end
